theory Spec2Isabelle
  imports Complex_Main "HOL-Library.Multiset"
begin

section \<open>Configuration constants of dqn.py\<close>

definition BATCH_SIZE :: nat where
  "BATCH_SIZE = 16"

definition EPSILON_START :: real where
  "EPSILON_START = 1"

definition EPSILON_END :: real where
  "EPSILON_END = 5 / 100"

definition EPSILON_DECAY :: real where
  "EPSILON_DECAY = 20000"

definition TARGET_UPDATE_INTERVAL :: nat where
  "TARGET_UPDATE_INTERVAL = 500"

definition CHECKPOINT_INTERVAL :: nat where
  "CHECKPOINT_INTERVAL = 5000"

section \<open>Exceptions and library containers\<close>

text \<open>
  The source has no \<^verbatim>\<open>raise\<close> of its own; the exceptions below are the ones its
  library calls raise on the paths modelled here: \<^verbatim>\<open>random.sample\<close> on a sample larger
  than the population (or negative), the \<^verbatim>\<open>namedtuple\<close> constructor called without its
  four fields, \<^verbatim>\<open>np.stack\<close> of an empty list, and the read of a local variable that no
  assignment has bound.
\<close>

datatype error = ValueError | TypeError | UnboundLocalError

text \<open>
  \<^verbatim>\<open>collections.deque(maxlen=m)\<close> as a list, oldest element first. \<^verbatim>\<open>append\<close> adds on the
  right and, when the deque then holds more than \<open>m\<close> elements, discards one on the left.
\<close>

definition deque_append :: "nat \<Rightarrow> 'a list \<Rightarrow> 'a \<Rightarrow> 'a list" where
  "deque_append m xs x = (let ys = xs @ [x] in if m < length ys then tl ys else ys)"

section \<open>ReplayMemory\<close>

text \<open>
  A state is the array of stacked frames, a list over the frame type \<open>'f\<close>. The action is
  the index held by the \<open>[[index]]\<close> tensor, the reward a float read as a real number.
\<close>

record 'f Transition =
  state :: "'f list"
  action :: int
  reward :: real
  next_state :: "'f list"

record 'f ReplayMemory =
  capacity :: nat
  memory :: "'f Transition list"
  available :: bool

definition ReplayMemory_init :: "nat \<Rightarrow> 'f ReplayMemory" where
  "ReplayMemory_init cap = \<lparr>capacity = cap, memory = [], available = False\<rparr>"

definition put :: "'f ReplayMemory \<Rightarrow> 'f list \<Rightarrow> int \<Rightarrow> real \<Rightarrow> 'f list \<Rightarrow> 'f ReplayMemory" where
  "put rm s a r ns =
     (let transition = \<lparr>state = s, action = a, reward = r, next_state = ns\<rparr>
      in rm\<lparr>memory := deque_append (capacity rm) (memory rm) transition\<rparr>)"

definition size_rm :: "'f ReplayMemory \<Rightarrow> nat" where
  "size_rm rm = length (memory rm)"

text \<open>\<^verbatim>\<open>is_available\<close> returns a flag and may set \<^verbatim>\<open>_available\<close>: result and new object.\<close>

definition is_available :: "'f ReplayMemory \<Rightarrow> bool \<times> 'f ReplayMemory" where
  "is_available rm =
     (if available rm then (True, rm)
      else let rm' = (if BATCH_SIZE < length (memory rm) then rm\<lparr>available := True\<rparr> else rm)
           in (available rm', rm'))"

section \<open>The world outside the agent\<close>

text \<open>
  Everything the agent calls but does not define is a parameter of the model: the game
  behind \<^verbatim>\<open>gym\<close>, the random number generators, the network's forward pass, automatic
  differentiation and the RMSprop optimizer. The state of the game and of the generators
  is one value of type \<open>'w\<close> that each call may change.

  A module is its parameter tensors and its buffers (the running statistics of the batch
  normalisation layers), each flattened to a list of reals. The network is never put in
  evaluation mode, so a forward pass normalises over the batch it is given and updates the
  buffers: \<open>forward\<close> gives the row of action values for one state of a batch,
  \<open>forward_buffers\<close> the buffers after the pass over the batch. A row has one value per
  action and at least one action: it is kept as the value of action 0 and the list of the
  others.
\<close>

record module =
  parameters :: "real list"
  buffers :: "real list"

type_synonym qrow = "real \<times> real list"

record ('f, 'w) ext =
  game_reset :: "'w \<Rightarrow> 'w"
  game_step :: "int \<Rightarrow> 'w \<Rightarrow> (real \<times> bool) \<times> 'w"
  get_screen :: "'w \<Rightarrow> 'f"
  rand_unit :: "'w \<Rightarrow> real \<times> 'w"
  rand_action :: "'w \<Rightarrow> int \<times> 'w"
  rand_nat :: "'w \<Rightarrow> nat \<times> 'w"
  forward :: "module \<Rightarrow> 'f list list \<Rightarrow> 'f list \<Rightarrow> qrow"
  forward_buffers :: "module \<Rightarrow> 'f list list \<Rightarrow> real list"
  backward :: "module \<Rightarrow> 'f list list \<Rightarrow> int list \<Rightarrow> real list \<Rightarrow> real list"
  optimizer_step :: "real list \<Rightarrow> real list \<Rightarrow> real list \<Rightarrow> real list \<times> real list"
  torch_save :: "module \<times> module \<times> real list \<times> nat \<Rightarrow> nat \<Rightarrow> 'w \<Rightarrow> 'w"

text \<open>
  \<open>game_step a w\<close> is \<^verbatim>\<open>env.step(a)\<close> without the observation and the info, which the
  agent discards; \<open>get_screen\<close> is the rendered and preprocessed frame; \<open>rand_unit\<close> is
  \<^verbatim>\<open>random()\<close>, \<open>rand_action\<close> is \<^verbatim>\<open>action_space.sample()\<close>, \<open>rand_nat\<close> the raw draw
  behind \<^verbatim>\<open>random.sample\<close>. \<open>backward m states actions targets\<close> is the gradient of the
  smooth L1 loss between the gathered action values of \<open>m\<close> and the targets,
  \<open>optimizer_step opt params grads\<close> the RMSprop update (new optimizer state, new
  parameters), \<open>torch_save\<close> the checkpoint file written for a step number.
\<close>

subsection \<open>random.sample and ReplayMemory.sample\<close>

text \<open>
  \<^verbatim>\<open>random.sample(population, k)\<close> chooses \<open>k\<close> positions of the population, none of them
  twice: each draw picks one element of the pool that is left and removes it.
\<close>

fun draw :: "('w \<Rightarrow> nat \<times> 'w) \<Rightarrow> nat \<Rightarrow> 'a list \<Rightarrow> 'w \<Rightarrow> 'a list \<times> 'w" where
  "draw rnd 0 pool w = ([], w)"
| "draw rnd (Suc k) pool w =
     (if pool = [] then ([], w)
      else let (r, w1) = rnd w;
               j = r mod length pool;
               (rest, w2) = draw rnd k (take j pool @ drop (Suc j) pool) w1
           in (pool ! j # rest, w2))"

definition random_sample ::
  "('w \<Rightarrow> nat \<times> 'w) \<Rightarrow> 'a list \<Rightarrow> int \<Rightarrow> 'w \<Rightarrow> error + 'a list \<times> 'w" where
  "random_sample rnd population k w =
     (if k < 0 \<or> int (length population) < k then Inl ValueError
      else Inr (draw rnd (nat k) population w))"

text \<open>
  \<^verbatim>\<open>Transition(*(zip(*transitions)))\<close> turns the sampled rows into one \<^verbatim>\<open>Transition\<close> of
  four columns. With no row, \<^verbatim>\<open>zip\<close> yields no column and the constructor is called
  without arguments.
\<close>

record 'f batch =
  b_state :: "'f list list"
  b_action :: "int list"
  b_reward :: "real list"
  b_next_state :: "'f list list"

definition columns :: "'f Transition list \<Rightarrow> 'f batch" where
  "columns ts = \<lparr>b_state = map state ts, b_action = map action ts,
                 b_reward = map reward ts, b_next_state = map next_state ts\<rparr>"

definition rows :: "'f batch \<Rightarrow> 'f Transition list" where
  "rows b = map (\<lambda>(s, a, r, ns). \<lparr>state = s, action = a, reward = r, next_state = ns\<rparr>)
              (zip (b_state b) (zip (b_action b) (zip (b_reward b) (b_next_state b))))"

definition sample ::
  "('f, 'w) ext \<Rightarrow> 'f ReplayMemory \<Rightarrow> int \<Rightarrow> 'w \<Rightarrow> error + 'f batch \<times> 'w" where
  "sample X rm batch_size w =
     (case random_sample (rand_nat X) (memory rm) batch_size w of
        Inl e \<Rightarrow> Inl e
      | Inr (transitions, w') \<Rightarrow>
          if transitions = [] then Inl TypeError else Inr (columns transitions, w'))"

section \<open>Floats that may be NaN\<close>

text \<open>
  \<^verbatim>\<open>np.mean\<close> of an empty sequence is NaN (numpy warns and returns it), NaN is absorbing
  for arithmetic, and every ordering comparison with NaN is false. A finite float is
  read as the real number it stands for; rounding is not modelled. The only division
  of the source has the divisor \<open>1 + mean\<close> of a mean of episode lengths, which is at
  least 1, so no infinity arises.
\<close>

datatype npfloat = NaN | Num real

fun fl_add :: "npfloat \<Rightarrow> npfloat \<Rightarrow> npfloat" where
  "fl_add (Num x) (Num y) = Num (x + y)"
| "fl_add _ _ = NaN"

fun fl_div :: "npfloat \<Rightarrow> npfloat \<Rightarrow> npfloat" where
  "fl_div (Num x) (Num y) = Num (x / y)"
| "fl_div _ _ = NaN"

fun fl_gt :: "npfloat \<Rightarrow> npfloat \<Rightarrow> bool" where
  "fl_gt (Num x) (Num y) = (y < x)"
| "fl_gt _ _ = False"

fun fl_le :: "npfloat \<Rightarrow> npfloat \<Rightarrow> bool" where
  "fl_le (Num x) (Num y) = (x \<le> y)"
| "fl_le _ _ = False"

definition np_mean :: "nat list \<Rightarrow> npfloat" where
  "np_mean xs = (if xs = [] then NaN else Num (real (sum_list xs) / real (length xs)))"

section \<open>Tensor reductions over a row of action values\<close>

text \<open>\<^verbatim>\<open>max(1)\<close> gives the largest value of a row and the index where it first occurs.\<close>

definition tensor_max :: "qrow \<Rightarrow> real" where
  "tensor_max row = fold max (snd row) (fst row)"

fun argmax_from :: "real \<Rightarrow> nat \<Rightarrow> nat \<Rightarrow> real list \<Rightarrow> nat" where
  "argmax_from best bi i [] = bi"
| "argmax_from best bi i (x # xs) =
     (if best < x then argmax_from x i (Suc i) xs else argmax_from best bi (Suc i) xs)"

definition tensor_argmax :: "qrow \<Rightarrow> int" where
  "tensor_argmax row = int (argmax_from (fst row) 0 1 (snd row))"

section \<open>Agent\<close>

text \<open>
  The two networks are objects on a heap: the agent holds their addresses, so that an
  in-place update of one and a copy of the other can be told apart. \<^verbatim>\<open>copy.deepcopy\<close>
  allocates a new object with the contents of the old one.
\<close>

definition deepcopy :: "module list \<Rightarrow> nat \<Rightarrow> nat \<times> module list" where
  "deepcopy h a = (length h, h @ [h ! a])"

record ('f, 'w) Agent =
  action_repeat :: nat
  frame_skipping :: nat
  state_buffer :: "'f list"
  step :: nat
  play_steps :: "nat list"
  world :: 'w
  heap :: "module list"
  dqn :: nat
  target :: nat
  optimizer :: "real list"
  replay :: "'f ReplayMemory"
  epsilon :: npfloat

text \<open>
  \<^verbatim>\<open>Agent.__init__\<close>, given the freshly initialised network, the optimizer's initial
  state and the world. The step counter starts at 0 and is only ever incremented, or
  restored from a checkpoint that saved it: a natural number.
\<close>

definition Agent_init :: "module \<Rightarrow> real list \<Rightarrow> 'w \<Rightarrow> nat \<Rightarrow> nat \<Rightarrow> ('f, 'w) Agent" where
  "Agent_init net opt w ar fs =
     (let h0 = [net];
          (t, h1) = deepcopy h0 0
      in \<lparr>action_repeat = ar, frame_skipping = fs, state_buffer = [], step = 0,
          play_steps = [], world = w, heap = h1, dqn = 0, target = t, optimizer = opt,
          replay = ReplayMemory_init 20000, epsilon = Num EPSILON_START\<rparr>)"

definition play_step :: "('f, 'w) Agent \<Rightarrow> npfloat" where
  "play_step ag = np_mean (play_steps ag)"

definition epsilon_value :: "nat \<Rightarrow> npfloat \<Rightarrow> npfloat" where
  "epsilon_value n avg =
     fl_add (Num (EPSILON_END + (EPSILON_START - EPSILON_END) * exp (- 1 * real n / EPSILON_DECAY)))
            (fl_div (Num 5) (fl_add (Num 1) avg))"

definition select_action ::
  "('f, 'w) ext \<Rightarrow> 'f list \<Rightarrow> ('f, 'w) Agent \<Rightarrow> int \<times> ('f, 'w) Agent" where
  "select_action X states ag =
     (let ag1 = ag\<lparr>epsilon := epsilon_value (step ag) (play_step ag)\<rparr>;
          (r, w1) = rand_unit X (world ag1);
          ag2 = ag1\<lparr>world := w1\<rparr>
      in if fl_gt (epsilon ag2) (Num r) then
           (let (a, w2) = rand_action X (world ag2) in (a, ag2\<lparr>world := w2\<rparr>))
         else
           (let net = heap ag2 ! dqn ag2;
                row = forward X net [states] states;
                h = (heap ag2)[dqn ag2 := net\<lparr>buffers := forward_buffers X net [states]\<rparr>]
            in (tensor_argmax row, ag2\<lparr>heap := h\<rparr>)))"

definition get_initial_states ::
  "('f, 'w) ext \<Rightarrow> ('f, 'w) Agent \<Rightarrow> error + 'f list \<times> ('f, 'w) Agent" where
  "get_initial_states X ag =
     (let w1 = game_reset X (world ag);
          st = get_screen X w1;
          n = action_repeat ag
      in if n = 0 then Inl ValueError
         else let states = replicate n st;
                  buf = fold (\<lambda>_ b. deque_append n b st) [0..<n] []
              in Inr (states, ag\<lparr>world := w1, state_buffer := buf\<rparr>))"

definition add_state :: "('f, 'w) Agent \<Rightarrow> 'f \<Rightarrow> ('f, 'w) Agent" where
  "add_state ag st = ag\<lparr>state_buffer := deque_append (action_repeat ag) (state_buffer ag) st\<rparr>"

definition recent_states :: "('f, 'w) Agent \<Rightarrow> 'f list" where
  "recent_states ag = state_buffer ag"

subsection \<open>Agent.optimize\<close>

text \<open>
  The target network's largest action value for every next state of the batch
  (\<^verbatim>\<open>self.target(next_state_batch).max(1)[0]\<close>), and the second argument of the loss
  (\<^verbatim>\<open>reward_batch + (target_values * gamma)\<close>), element by element.
\<close>

definition target_values :: "('f, 'w) ext \<Rightarrow> module \<Rightarrow> 'f list list \<Rightarrow> real list" where
  "target_values X tnet next_state_batch =
     map (\<lambda>s. tensor_max (forward X tnet next_state_batch s)) next_state_batch"

definition loss_targets :: "real \<Rightarrow> real list \<Rightarrow> real list \<Rightarrow> real list" where
  "loss_targets gamma reward_batch tvs = map (\<lambda>(r, tv). r + tv * gamma) (zip reward_batch tvs)"

text \<open>
  The four statistics that \<^verbatim>\<open>optimize\<close> returns are only printed by \<^verbatim>\<open>train\<close>; the model
  returns the agent after the update. The two forward passes update the buffers of the
  module they run on, the optimizer writes the online module's parameters in place.
\<close>

definition optimize ::
  "('f, 'w) ext \<Rightarrow> real \<Rightarrow> ('f, 'w) Agent \<Rightarrow> error + ('f, 'w) Agent" where
  "optimize X gamma ag =
     (case sample X (replay ag) (int BATCH_SIZE) (world ag) of
        Inl e \<Rightarrow> Inl e
      | Inr (transitions, w1) \<Rightarrow>
          let state_batch = b_state transitions;
              action_batch = b_action transitions;
              reward_batch = b_reward transitions;
              next_state_batch = b_next_state transitions;
              online = heap ag ! dqn ag;
              h1 = (heap ag)[dqn ag := online\<lparr>buffers := forward_buffers X online state_batch\<rparr>];
              tnet = h1 ! target ag;
              tvs = target_values X tnet next_state_batch;
              h2 = h1[target ag := tnet\<lparr>buffers := forward_buffers X tnet next_state_batch\<rparr>];
              targets = loss_targets gamma reward_batch tvs;
              grads = backward X online state_batch action_batch targets;
              clamped = map (\<lambda>g. min 1 (max (- 1) g)) grads;
              (opt', params') = optimizer_step X (optimizer ag) (parameters (h2 ! dqn ag)) clamped;
              h3 = h2[dqn ag := (h2 ! dqn ag)\<lparr>parameters := params'\<rparr>]
          in Inr (ag\<lparr>world := w1, heap := h3, optimizer := opt'\<rparr>))"

definition target_update :: "('f, 'w) Agent \<Rightarrow> ('f, 'w) Agent" where
  "target_update ag = (let (t, h) = deepcopy (heap ag) (dqn ag) in ag\<lparr>target := t, heap := h\<rparr>)"

definition save_checkpoint :: "('f, 'w) ext \<Rightarrow> ('f, 'w) Agent \<Rightarrow> nat \<Rightarrow> ('f, 'w) Agent" where
  "save_checkpoint X ag n =
     ag\<lparr>world := torch_save X (heap ag ! dqn ag, heap ag ! target ag, optimizer ag, step ag) n
                    (world ag)\<rparr>"

subsection \<open>Agent.train\<close>

text \<open>
  The frame-skip loop \<^verbatim>\<open>for _ in range(self.frame_skipping)\<close>. The locals \<^verbatim>\<open>reward\<close> and
  \<^verbatim>\<open>done\<close> are passed along as the pair last assigned, \<open>None\<close> while unbound.
\<close>

fun frame_skip ::
  "('f, 'w) ext \<Rightarrow> nat \<Rightarrow> int \<Rightarrow> (real \<times> bool) option \<Rightarrow> ('f, 'w) Agent \<Rightarrow>
   (real \<times> bool) option \<times> ('f, 'w) Agent" where
  "frame_skip X 0 a bound ag = (bound, ag)"
| "frame_skip X (Suc n) a bound ag =
     (let ((rew, done), w1) = game_step X a (world ag);
          nxt = get_screen X w1;
          ag1 = add_state (ag\<lparr>world := w1\<rparr>) nxt
      in if done then (Some (rew, done), ag1) else frame_skip X n a (Some (rew, done)) ag1)"

text \<open>
  One pass through the body of the inner \<^verbatim>\<open>while True\<close> up to \<^verbatim>\<open>if done: break\<close>: the
  next states, the flag \<^verbatim>\<open>done\<close> and the agent. With \<^verbatim>\<open>frame_skipping = 0\<close> no substep runs
  and the read of \<^verbatim>\<open>reward\<close> in the call of \<^verbatim>\<open>put\<close> fails: the locals are unbound when
  \<^verbatim>\<open>train\<close> starts, and nothing later can bind them.
\<close>

definition train_step ::
  "('f, 'w) ext \<Rightarrow> real \<Rightarrow> 'f list \<Rightarrow> ('f, 'w) Agent \<Rightarrow>
   error + 'f list \<times> bool \<times> ('f, 'w) Agent" where
  "train_step X gamma states ag =
     (let (a, ag1) = select_action X states ag
      in case frame_skip X (frame_skipping ag1) a None ag1 of
           (None, ag2) \<Rightarrow> Inl UnboundLocalError
         | (Some (rew, done), ag2) \<Rightarrow>
             (let next_states = recent_states ag2;
                  ag3 = ag2\<lparr>replay := put (replay ag2) states a rew next_states\<rparr>;
                  (avail, rm) = is_available (replay ag3);
                  ag4 = ag3\<lparr>replay := rm\<rparr>
              in (case (if avail then optimize X gamma ag4 else Inr ag4) of
                    Inl e \<Rightarrow> Inl e
                  | Inr ag5 \<Rightarrow> Inr (next_states, done, ag5))))"

text \<open>The rest of the body, reached when the step did not end the episode.\<close>

definition train_advance :: "('f, 'w) ext \<Rightarrow> ('f, 'w) Agent \<Rightarrow> ('f, 'w) Agent" where
  "train_advance X ag =
     (let ag1 = ag\<lparr>step := step ag + 1\<rparr>;
          ag2 = (if step ag1 mod TARGET_UPDATE_INTERVAL = 0 then target_update ag1 else ag1)
      in if step ag2 mod CHECKPOINT_INTERVAL = 0 then save_checkpoint X ag2 (step ag2) else ag2)"

text \<open>
  The inner \<^verbatim>\<open>while True\<close> with its counter \<^verbatim>\<open>play_steps\<close>. It ends when a step reports
  \<^verbatim>\<open>done\<close> or raises; a game that never ends gives \<open>None\<close>.
\<close>

partial_function (option) train_inner ::
  "('f, 'w) ext \<Rightarrow> real \<Rightarrow> 'f list \<Rightarrow> nat \<Rightarrow> ('f, 'w) Agent \<Rightarrow>
   (error + ('f, 'w) Agent \<times> nat) option" where
  "train_inner X gamma states play ag =
     (case train_step X gamma states ag of
        Inl e \<Rightarrow> Some (Inl e)
      | Inr (next_states, done, ag1) \<Rightarrow>
          if done then Some (Inr (ag1, play))
          else train_inner X gamma next_states (Suc play) (train_advance X ag1))"

text \<open>
  One iteration of the outer \<^verbatim>\<open>while True\<close>: the agent after the episode and the value of
  \<^verbatim>\<open>play_steps\<close> that the log line prints.
\<close>

definition train_episode ::
  "('f, 'w) ext \<Rightarrow> real \<Rightarrow> ('f, 'w) Agent \<Rightarrow> (error + ('f, 'w) Agent \<times> nat) option" where
  "train_episode X gamma ag =
     (case get_initial_states X ag of
        Inl e \<Rightarrow> Some (Inl e)
      | Inr (states, ag1) \<Rightarrow>
          (case train_inner X gamma states 0 ag1 of
             None \<Rightarrow> None
           | Some (Inl e) \<Rightarrow> Some (Inl e)
           | Some (Inr (ag2, play)) \<Rightarrow>
               Some (Inr (ag2\<lparr>play_steps := deque_append 5 (play_steps ag2) play\<rparr>, play))))"

section \<open>Call sequences and scripted worlds used to state the properties\<close>

text \<open>
  A client of \<^verbatim>\<open>ReplayMemory\<close> calls \<^verbatim>\<open>put\<close> and \<^verbatim>\<open>is_available\<close> in any order. \<open>rm_run\<close>
  performs a list of such calls, \<open>stored\<close> lists the transitions that the \<^verbatim>\<open>put\<close> calls
  among them were given, in call order.
\<close>

datatype 'f rm_call = Put "'f list" int real "'f list" | IsAvailable

fun rm_run :: "'f ReplayMemory \<Rightarrow> 'f rm_call list \<Rightarrow> 'f ReplayMemory" where
  "rm_run rm [] = rm"
| "rm_run rm (Put s a r ns # cs) = rm_run (put rm s a r ns) cs"
| "rm_run rm (IsAvailable # cs) = rm_run (snd (is_available rm)) cs"

fun stored :: "'f rm_call list \<Rightarrow> 'f Transition list" where
  "stored [] = []"
| "stored (Put s a r ns # cs) = \<lparr>state = s, action = a, reward = r, next_state = ns\<rparr> # stored cs"
| "stored (IsAvailable # cs) = stored cs"

text \<open>Transition number \<open>n\<close> of a test run, and the call that stores it.\<close>

definition tr :: "nat \<Rightarrow> nat Transition" where
  "tr n = \<lparr>state = [n], action = 0, reward = real n, next_state = [Suc n]\<rparr>"

definition put_tr :: "nat \<Rightarrow> nat rm_call" where
  "put_tr n = Put [n] 0 (real n) [Suc n]"

text \<open>
  The results of the \<^verbatim>\<open>env.step\<close> calls that one frame-skip loop executes, in order: at
  most \<open>n\<close> of them, none after one that reported \<^verbatim>\<open>done\<close>.
\<close>

fun substeps :: "('f, 'w) ext \<Rightarrow> nat \<Rightarrow> int \<Rightarrow> 'w \<Rightarrow> (real \<times> bool) list" where
  "substeps X 0 a w = []"
| "substeps X (Suc n) a w =
     (let (rd, w1) = game_step X a w in rd # (if snd rd then [] else substeps X n a w1))"

text \<open>
  A scripted world: the world is a counter of game steps since the last reset, the frame
  shown is the counter, step number \<open>i\<close> pays reward \<open>i\<close>, and the game is over from step
  \<open>d\<close> on. The network values action 1 above action 0 and is left unchanged by training.
\<close>

definition scripted :: "nat \<Rightarrow> (nat, nat) ext" where
  "scripted d =
     \<lparr>game_reset = (\<lambda>w. 0),
      game_step = (\<lambda>a w. ((real (Suc w), d \<le> Suc w), Suc w)),
      get_screen = (\<lambda>w. w),
      rand_unit = (\<lambda>w. (1 / 2, w)),
      rand_action = (\<lambda>w. (0, w)),
      rand_nat = (\<lambda>w. (w, w)),
      forward = (\<lambda>m b s. (0, [2])),
      forward_buffers = (\<lambda>m b. buffers m),
      backward = (\<lambda>m sb ab ts. map (\<lambda>p. 0) (parameters m)),
      optimizer_step = (\<lambda>opt ps gs. (opt, ps)),
      torch_save = (\<lambda>c n w. w)\<rparr>"

text \<open>The memory of the capacity-3 scenario, after transitions 1 to 5 have been put.\<close>

definition three :: "nat ReplayMemory" where
  "three = rm_run (ReplayMemory_init 3) (map put_tr [1, 2, 3, 4, 5])"

section \<open>ReplayMemory: eviction, the availability latch, sampling\<close>

lemma deque_append_drop:
  assumes "length xs \<le> m"
  shows "deque_append m xs x = drop (Suc (length xs) - m) (xs @ [x])"
proof (cases "length xs = m")
  case True
  then show ?thesis by (cases xs) (auto simp: deque_append_def Let_def)
next
  case False
  with assms have "length xs < m" by simp
  then show ?thesis by (simp add: deque_append_def Let_def)
qed

lemma deque_append_length_le: "length xs \<le> m \<Longrightarrow> length (deque_append m xs x) \<le> m"
  by (auto simp: deque_append_def Let_def)

lemma is_available_memory [simp]: "memory (snd (is_available rm)) = memory rm"
  by (simp add: is_available_def Let_def)

lemma is_available_capacity [simp]: "capacity (snd (is_available rm)) = capacity rm"
  by (simp add: is_available_def Let_def)

lemma put_capacity [simp]: "capacity (put rm s a r ns) = capacity rm"
  by (simp add: put_def)

lemma put_memory:
  "memory (put rm s a r ns) =
     deque_append (capacity rm) (memory rm) \<lparr>state = s, action = a, reward = r, next_state = ns\<rparr>"
  by (simp add: put_def)

lemma rm_run_capacity [simp]: "capacity (rm_run rm cs) = capacity rm"
  by (induction rm cs rule: rm_run.induct) simp_all

lemma rm_run_memory:
  "length (memory rm) \<le> capacity rm \<Longrightarrow>
   memory (rm_run rm cs) =
     drop (length (memory rm) + length (stored cs) - capacity rm) (memory rm @ stored cs)"
proof (induction rm cs rule: rm_run.induct)
  case (1 rm)
  then show ?case by simp
next
  case (2 rm s a r ns cs)
  let ?t = "\<lparr>state = s, action = a, reward = r, next_state = ns\<rparr>"
  let ?m' = "deque_append (capacity rm) (memory rm) ?t"
  have len: "length ?m' \<le> capacity rm"
    using "2.prems" by (rule deque_append_length_le)
  have run: "memory (rm_run (put rm s a r ns) cs) =
          drop (length ?m' + length (stored cs) - capacity rm) (?m' @ stored cs)"
    using "2.IH" len by (simp add: put_memory)
  show ?case
  proof (cases "length (memory rm) = capacity rm")
    case True
    then have m': "?m' = tl (memory rm @ [?t])" and l': "length ?m' = capacity rm"
      by (simp_all add: deque_append_def Let_def)
    have "tl (memory rm @ [?t]) @ stored cs = tl (memory rm @ ?t # stored cs)"
      by (cases "memory rm") simp_all
    moreover have "length ?m' + length (stored cs) - capacity rm = length (stored cs)"
      by (simp only: l' add_diff_cancel_left')
    ultimately have "drop (length ?m' + length (stored cs) - capacity rm) (?m' @ stored cs) =
          drop (length (stored cs)) (tl (memory rm @ ?t # stored cs))"
      by (simp only: m')
    also have "\<dots> = drop (Suc (length (stored cs))) (memory rm @ ?t # stored cs)"
      by (simp only: drop_Suc)
    finally show ?thesis using run True by simp
  next
    case False
    with "2.prems" have lt: "length (memory rm) < capacity rm" by simp
    then have m': "?m' = memory rm @ [?t]"
      by (simp add: deque_append_def Let_def)
    show ?thesis using run lt unfolding m' by (simp add: Suc_diff_le)
  qed
next
  case (3 rm cs)
  then show ?case by simp
qed


lemma ReplayMemory_init_simps [simp]:
  "capacity (ReplayMemory_init cap) = cap"
  "memory (ReplayMemory_init cap) = []"
  "available (ReplayMemory_init cap) = False"
  by (simp_all add: ReplayMemory_init_def)

text \<open>
  Claim C3. When more transitions have been put than the capacity, \<^verbatim>\<open>size()\<close> equals the
  capacity and the memory holds exactly the last \<open>capacity\<close> transitions put, in the order
  in which they were put. With capacity 3, putting transitions 1 to 5 leaves 3, 4, 5.
\<close>

theorem C3_fifo_eviction:
  assumes "cap < length (stored cs)"
  shows "size_rm (rm_run (ReplayMemory_init cap) cs) = cap \<and>
         memory (rm_run (ReplayMemory_init cap) cs) = drop (length (stored cs) - cap) (stored cs)"
proof -
  have "memory (rm_run (ReplayMemory_init cap) cs) = drop (length (stored cs) - cap) (stored cs)"
    using rm_run_memory [of "ReplayMemory_init cap" cs] by simp
  with assms show ?thesis by (simp add: size_rm_def)
qed

theorem C3_fifo_eviction_witness:
  "3 < length (stored (map put_tr [1, 2, 3, 4, 5])) \<and>
   size_rm (rm_run (ReplayMemory_init 3) (map put_tr [1, 2, 3, 4, 5])) = 3 \<and>
   memory (rm_run (ReplayMemory_init 3) (map put_tr [1, 2, 3, 4, 5])) = [tr 3, tr 4, tr 5]"
  using C3_fifo_eviction [of 3 "map put_tr [1, 2, 3, 4, 5]"]
  by (simp add: put_tr_def tr_def)

lemma is_available_fst: "fst (is_available rm) \<longleftrightarrow> available rm \<or> BATCH_SIZE < length (memory rm)"
  by (simp add: is_available_def Let_def)

lemma is_available_snd: "available (snd (is_available rm)) \<longleftrightarrow> available rm \<or> BATCH_SIZE < length (memory rm)"
  by (simp add: is_available_def Let_def)

lemma put_available [simp]: "available (put rm s a r ns) = available rm"
  by (simp add: put_def)

lemma rm_run_latch: "available rm \<Longrightarrow> available (rm_run rm cs)"
  by (induction rm cs rule: rm_run.induct) (simp_all add: is_available_snd)

lemma deque_append_length_mono: "length xs \<le> length (deque_append m xs x)"
  by (cases xs) (auto simp: deque_append_def Let_def)

lemma rm_run_length_mono: "length (memory rm) \<le> length (memory (rm_run rm cs))"
proof (induction rm cs rule: rm_run.induct)
  case (2 rm s a r ns cs)
  have "length (memory rm) \<le> length (memory (put rm s a r ns))"
    by (simp add: put_memory deque_append_length_mono)
  with "2.IH" show ?case by simp
qed simp_all

lemma rm_run_available_sound:
  "available rm \<longrightarrow> BATCH_SIZE < length (memory rm) \<Longrightarrow>
   available (rm_run rm cs) \<longrightarrow> BATCH_SIZE < length (memory (rm_run rm cs))"
proof (induction rm cs rule: rm_run.induct)
  case (2 rm s a r ns cs)
  have "length (memory rm) \<le> length (memory (put rm s a r ns))"
    by (simp add: put_memory deque_append_length_mono)
  with "2.prems" have "available (put rm s a r ns) \<longrightarrow> BATCH_SIZE < length (memory (put rm s a r ns))"
    by auto
  then show ?case using "2.IH" by simp
next
  case (3 rm cs)
  have "available (snd (is_available rm)) \<longrightarrow> BATCH_SIZE < length (memory (snd (is_available rm)))"
    using "3.prems" by (auto simp: is_available_snd)
  then show ?case using "3.IH" by simp
qed simp

lemma rm_run_init_length:
  "length (memory (rm_run (ReplayMemory_init cap) cs)) = min cap (length (stored cs))"
  using rm_run_memory [of "ReplayMemory_init cap" cs] by (simp add: min_def)

text \<open>
  Claim C2, amended. After any sequence of calls on a new memory, \<^verbatim>\<open>is_available()\<close>
  returns true exactly when more than \<open>BATCH_SIZE\<close> transitions have been put and the
  capacity exceeds \<open>BATCH_SIZE\<close>, that is when the memory holds more than \<open>BATCH_SIZE\<close>
  transitions. From any state in which it has returned true, it returns true after every
  later sequence of calls.
\<close>

theorem C2_latch:
  "(fst (is_available (rm_run (ReplayMemory_init cap) cs)) \<longleftrightarrow>
      BATCH_SIZE < cap \<and> BATCH_SIZE < length (stored cs)) \<and>
   (fst (is_available rm) \<longrightarrow> fst (is_available (rm_run (snd (is_available rm)) cs')))"
proof
  let ?rm = "rm_run (ReplayMemory_init cap) cs"
  have "available ?rm \<longrightarrow> BATCH_SIZE < length (memory ?rm)"
    by (rule rm_run_available_sound) simp
  then have "fst (is_available ?rm) \<longleftrightarrow> BATCH_SIZE < length (memory ?rm)"
    by (auto simp: is_available_fst)
  then show "fst (is_available ?rm) \<longleftrightarrow> BATCH_SIZE < cap \<and> BATCH_SIZE < length (stored cs)"
    by (simp add: rm_run_init_length)
next
  show "fst (is_available rm) \<longrightarrow> fst (is_available (rm_run (snd (is_available rm)) cs'))"
  proof
    assume "fst (is_available rm)"
    then have "available (snd (is_available rm))"
      by (simp add: is_available_fst is_available_snd)
    then have "available (rm_run (snd (is_available rm)) cs')"
      by (rule rm_run_latch)
    then show "fst (is_available (rm_run (snd (is_available rm)) cs'))"
      by (simp add: is_available_fst)
  qed
qed

theorem C2_latch_witness:
  "fst (is_available (rm_run (ReplayMemory_init 20) (replicate 17 (put_tr 0)))) \<and>
   fst (is_available (rm_run (snd (is_available (rm_run (ReplayMemory_init 20)
     (replicate 17 (put_tr 0))))) [put_tr 1, IsAvailable, put_tr 2]))"
  using C2_latch [of 20 "replicate 17 (put_tr 0)"
      "rm_run (ReplayMemory_init 20) (replicate 17 (put_tr 0))" "[put_tr 1, IsAvailable, put_tr 2]"]
  by (simp add: BATCH_SIZE_def put_tr_def numeral_eq_Suc)

text \<open>
  The claim as stated fails when the capacity does not exceed \<open>BATCH_SIZE\<close>: with
  capacity 3, seventeen transitions have been put and \<^verbatim>\<open>is_available()\<close> returns false.
\<close>

theorem C2_counterexample:
  "BATCH_SIZE < length (stored (replicate 17 (put_tr 0))) \<and>
   \<not> fst (is_available (rm_run (ReplayMemory_init 3) (replicate 17 (put_tr 0))))"
  by (simp add: BATCH_SIZE_def put_tr_def is_available_def put_def deque_append_def
      ReplayMemory_init_def Let_def numeral_eq_Suc)

lemma draw_length: "length (fst (draw rnd k pool w)) = min k (length pool)"
proof (induction k arbitrary: pool w)
  case 0
  then show ?case by simp
next
  case (Suc k)
  show ?case
  proof (cases "pool = []")
    case True
    then show ?thesis by simp
  next
    case False
    obtain r w1 where rw: "rnd w = (r, w1)" by (cases "rnd w")
    let ?j = "r mod length pool"
    let ?pool' = "take ?j pool @ drop (Suc ?j) pool"
    obtain rest w2 where d: "draw rnd k ?pool' w1 = (rest, w2)" by (cases "draw rnd k ?pool' w1")
    have j: "?j < length pool" using False by simp
    have lp: "length ?pool' = length pool - 1" using j by simp
    have "length rest = min k (length ?pool')"
      using Suc.IH [of ?pool' w1] d by simp
    then have lr: "length rest = min k (length pool - 1)" by (simp only: lp)
    have pos: "0 < length pool" using False by simp
    have "length (fst (draw rnd (Suc k) pool w)) = Suc (length rest)"
      using False rw d by (simp add: Let_def)
    also have "\<dots> = min (Suc k) (length pool)" using lr pos by arith
    finally show ?thesis .
  qed
qed

lemma draw_mset: "mset (fst (draw rnd k pool w)) \<subseteq># mset pool"
proof (induction k arbitrary: pool w)
  case 0
  then show ?case by simp
next
  case (Suc k)
  show ?case
  proof (cases "pool = []")
    case True
    then show ?thesis by simp
  next
    case False
    obtain r w1 where rw: "rnd w = (r, w1)" by (cases "rnd w")
    let ?j = "r mod length pool"
    let ?pool' = "take ?j pool @ drop (Suc ?j) pool"
    obtain rest w2 where d: "draw rnd k ?pool' w1 = (rest, w2)" by (cases "draw rnd k ?pool' w1")
    have j: "?j < length pool" using False by simp
    have sub: "mset rest \<subseteq># mset ?pool'"
      using Suc.IH [of ?pool' w1] d by simp
    have "pool = take ?j pool @ pool ! ?j # drop (Suc ?j) pool"
      using j by (rule id_take_nth_drop)
    then have "mset pool = add_mset (pool ! ?j) (mset ?pool')"
      by (metis mset.simps(2) mset_append union_mset_add_mset_right)
    with sub have "mset (pool ! ?j # rest) \<subseteq># mset pool" by simp
    then show ?thesis using False rw d by (simp add: Let_def)
  qed
qed

lemma distinct_count_le: "distinct xs \<longleftrightarrow> (\<forall>a. count (mset xs) a \<le> 1)"
proof (induction xs)
  case Nil
  then show ?case by simp
next
  case (Cons x xs)
  show ?case
  proof
    assume d: "distinct (x # xs)"
    then have "count (mset xs) x = 0" by (simp add: count_eq_zero_iff)
    with d Cons show "\<forall>a. count (mset (x # xs)) a \<le> 1" by auto
  next
    assume c: "\<forall>a. count (mset (x # xs)) a \<le> 1"
    then have "count (mset (x # xs)) x \<le> 1" by blast
    then have "count (mset xs) x = 0" by simp
    then have "x \<notin> set xs" by (simp add: count_eq_zero_iff)
    moreover have "\<forall>a. count (mset xs) a \<le> 1"
    proof
      fix a
      have "count (mset xs) a \<le> count (mset (x # xs)) a" by simp
      also have "\<dots> \<le> 1" using c by blast
      finally show "count (mset xs) a \<le> 1" .
    qed
    ultimately show "distinct (x # xs)" using Cons by simp
  qed
qed

lemma distinct_mset_subseteq:
  assumes "mset xs \<subseteq># mset ys" and "distinct ys"
  shows "distinct xs"
proof -
  have "count (mset xs) a \<le> 1" for a
  proof -
    have "count (mset xs) a \<le> count (mset ys) a"
      using assms(1) by (rule mset_subset_eq_count)
    also have "\<dots> \<le> 1" using assms(2) by (simp add: distinct_count_le)
    finally show ?thesis .
  qed
  then show ?thesis by (simp add: distinct_count_le)
qed

lemma rows_columns [simp]: "rows (columns ts) = ts"
  by (induction ts) (simp_all add: rows_def columns_def)

lemma columns_length [simp]:
  "length (b_state (columns ts)) = length ts" "length (b_action (columns ts)) = length ts"
  "length (b_reward (columns ts)) = length ts" "length (b_next_state (columns ts)) = length ts"
  by (simp_all add: columns_def)

lemma sample_ok:
  assumes "1 \<le> k" and "k \<le> int (size_rm rm)"
  shows "\<exists>ts w'. sample X rm k w = Inr (columns ts, w') \<and> length ts = nat k \<and>
           mset ts \<subseteq># mset (memory rm) \<and> (distinct (memory rm) \<longrightarrow> distinct ts)"
proof -
  obtain ts w' where d: "draw (rand_nat X) (nat k) (memory rm) w = (ts, w')"
    by (cases "draw (rand_nat X) (nat k) (memory rm) w")
  have len: "length ts = nat k"
    using draw_length [of "rand_nat X" "nat k" "memory rm" w] d assms by (simp add: size_rm_def)
  have sub: "mset ts \<subseteq># mset (memory rm)"
    using draw_mset [of "rand_nat X" "nat k" "memory rm" w] d by simp
  from len assms have "ts \<noteq> []" by auto
  then have "sample X rm k w = Inr (columns ts, w')"
    using assms d by (simp add: sample_def random_sample_def size_rm_def)
  with len sub show ?thesis by (blast intro: distinct_mset_subseteq)
qed

text \<open>
  Claim C8, amended. For every \<open>k\<close> with \<open>1 \<le> k \<le> size()\<close>, \<^verbatim>\<open>sample(k)\<close> returns a batch of
  four columns of length \<open>k\<close> whose rows are \<open>k\<close> transitions taken from the memory
  without replacement: as a multiset they are contained in the memory, so they are
  pairwise distinct when the stored transitions are. For \<open>k > size()\<close> the call raises
  \<^verbatim>\<open>ValueError\<close>.
\<close>

theorem C8_sample:
  "(1 \<le> k \<and> k \<le> int (size_rm rm) \<longrightarrow>
      (\<exists>b w'. sample X rm k w = Inr (b, w') \<and>
         length (b_state b) = nat k \<and> length (b_action b) = nat k \<and>
         length (b_reward b) = nat k \<and> length (b_next_state b) = nat k \<and>
         length (rows b) = nat k \<and> mset (rows b) \<subseteq># mset (memory rm) \<and>
         (distinct (memory rm) \<longrightarrow> distinct (rows b)))) \<and>
   (int (size_rm rm) < k \<longrightarrow> sample X rm k w = Inl ValueError)"
proof (intro conjI impI)
  assume "1 \<le> k \<and> k \<le> int (size_rm rm)"
  then obtain ts w' where "sample X rm k w = Inr (columns ts, w')" "length ts = nat k"
      "mset ts \<subseteq># mset (memory rm)" "distinct (memory rm) \<longrightarrow> distinct ts"
    using sample_ok [of k rm X w] by blast
  then show "\<exists>b w'. sample X rm k w = Inr (b, w') \<and>
         length (b_state b) = nat k \<and> length (b_action b) = nat k \<and>
         length (b_reward b) = nat k \<and> length (b_next_state b) = nat k \<and>
         length (rows b) = nat k \<and> mset (rows b) \<subseteq># mset (memory rm) \<and>
         (distinct (memory rm) \<longrightarrow> distinct (rows b))"
    by (intro exI [of _ "columns ts"] exI [of _ w']) simp
next
  assume "int (size_rm rm) < k"
  then show "sample X rm k w = Inl ValueError"
    by (simp add: sample_def random_sample_def size_rm_def)
qed

lemma three_memory: "memory three = [tr 3, tr 4, tr 5]"
  by (simp add: three_def put_tr_def tr_def put_def deque_append_def ReplayMemory_init_def)

theorem C8_sample_witness:
  "(1::int) \<le> 2 \<and> 2 \<le> int (size_rm three) \<and>
   sample (scripted 1) three 2 1 = Inr (columns [tr 4, tr 5], 1) \<and>
   int (size_rm three) < 4 \<and> sample (scripted 1) three 4 1 = Inl ValueError"
  using C8_sample [of 2 three "scripted 1" 1] C8_sample [of 4 three "scripted 1" 1]
  by (simp add: sample_def random_sample_def size_rm_def three_memory scripted_def numeral_2_eq_2)

text \<open>
  The claim as stated fails at \<open>k = 0\<close>, which is at most \<^verbatim>\<open>size()\<close>: no row is sampled,
  \<^verbatim>\<open>zip\<close> yields no column, and the \<^verbatim>\<open>Transition\<close> constructor raises \<^verbatim>\<open>TypeError\<close>.
\<close>

theorem C8_counterexample:
  "0 \<le> int (size_rm three) \<and> sample (scripted 1) three 0 1 = Inl TypeError"
  by (simp add: sample_def random_sample_def three_memory)

end
